theory Spec2Isabelle
  imports Complex_Main
begin

section \<open>The control panel for fragment manipulation\<close>

text \<open>
  This theory embeds \<^verbatim>\<open>src/ui/control_panel.py\<close>: the class \<^verbatim>\<open>ControlPanel\<close>, a Qt
  widget that shows the selected fragment (or group of fragments) in a set of controls and
  turns the user's edits into the signals \<^verbatim>\<open>transform_requested\<close> and
  \<^verbatim>\<open>reset_transform_requested\<close>.

  The object \<^verbatim>\<open>self\<close> becomes a record that every method takes and returns. The
  signals the panel emits are appended to a log, in the order of emission. A method that can
  raise returns a sum, the exception on the left. Python floats are read as reals, so the
  rounding error of float arithmetic is outside the model.
\<close>

subsection \<open>Python values\<close>

datatype error = TypeError | ValueError | AttributeError

text \<open>
  The third argument of \<^verbatim>\<open>transform_requested\<close> is declared \<^verbatim>\<open>object\<close>: the panel
  sends \<^verbatim>\<open>None\<close>, integers, floats, booleans, tuples of numbers and the list of the
  selected ids.
\<close>

datatype pyvalue =
    PyNone
  | PyBool bool
  | PyInt int
  | PyFloat real
  | PyStr string
  | PyTuple "pyvalue list"
  | PyList "pyvalue list"

text \<open>
  The statement \<^verbatim>\<open>dx, dy = value\<close>: a sequence of exactly two items unpacks, a sequence
  of another length raises ValueError, a value that is not iterable raises TypeError.
\<close>

fun unpack2 :: "pyvalue \<Rightarrow> error + (pyvalue \<times> pyvalue)" where
  "unpack2 (PyTuple [a, b]) = Inr (a, b)"
| "unpack2 (PyTuple _) = Inl ValueError"
| "unpack2 (PyList [a, b]) = Inr (a, b)"
| "unpack2 (PyList _) = Inl ValueError"
| "unpack2 (PyStr [a, b]) = Inr (PyStr [a], PyStr [b])"
| "unpack2 (PyStr _) = Inl ValueError"
| "unpack2 _ = Inl TypeError"

text \<open>\<^verbatim>\<open>str(n)\<close> for an integer: its decimal digits, with a minus sign when negative.\<close>

definition digit_char :: "nat \<Rightarrow> char" where
  "digit_char d = ''0123456789'' ! d"

function str_nat :: "nat \<Rightarrow> string" where
  "str_nat n = (if n < 10 then [digit_char n] else str_nat (n div 10) @ [digit_char (n mod 10)])"
  by pat_completeness auto
termination
  by (relation "measure (\<lambda>n. n)") auto

declare str_nat.simps [simp del]

definition str_int :: "int \<Rightarrow> string" where
  "str_int i = (if i < 0 then CHR ''-'' # str_nat (nat (- i)) else str_nat (nat i))"

text \<open>\<^verbatim>\<open>int(r)\<close> for a float: truncation towards zero.\<close>

definition py_int :: "real \<Rightarrow> int" where
  "py_int r = (if 0 \<le> r then \<lfloor>r\<rfloor> else \<lceil>r\<rceil>)"

subsection \<open>Fragments\<close>

text \<open>
  Modelled from the spec: the class \<^verbatim>\<open>Fragment\<close> of \<^verbatim>\<open>core/fragment.py\<close> is not part
  of the sources at hand. The spec lists the attributes the panel consumes: identifier,
  display name, original dimensions, file path, position (x, y), rotation angle,
  horizontal and vertical flip flags, visibility flag and opacity. The attributes
  \<^verbatim>\<open>id\<close>, \<^verbatim>\<open>name\<close>, \<^verbatim>\<open>x\<close> and \<^verbatim>\<open>y\<close> carry the prefix \<open>fragment_\<close> here.
\<close>

record fragment =
  fragment_id :: string
  fragment_name :: string
  original_size :: "int \<times> int"
  file_path :: string
  fragment_x :: real
  fragment_y :: real
  rotation :: real
  flip_horizontal :: bool
  flip_vertical :: bool
  visible :: bool
  opacity :: real

subsection \<open>Widgets and signals\<close>

text \<open>
  The child widgets that \<^verbatim>\<open>setup_ui\<close> and its helpers create and keep as attributes of
  the panel (the captions without a name of their own are left out).
\<close>

datatype widget =
    info_group | transform_group | position_group | display_group
  | name_label | size_label | file_label
  | rotate_ccw_btn | rotate_cw_btn
  | angle_spinbox | angle_45_btn | angle_neg45_btn
  | flip_h_btn | flip_v_btn | reset_btn
  | x_spinbox | y_spinbox
  | up_btn | left_btn | center_btn | right_btn | down_btn
  | visible_checkbox | opacity_slider | opacity_label

text \<open>
  Each widget is laid out in the group box whose setup method adds it (directly or through
  a nested layout), and so has that group box as its parent widget. The four group boxes
  are children of the panel itself, which this class never disables.
\<close>

fun parentWidget :: "widget \<Rightarrow> widget option" where
  "parentWidget name_label = Some info_group"
| "parentWidget size_label = Some info_group"
| "parentWidget file_label = Some info_group"
| "parentWidget rotate_ccw_btn = Some transform_group"
| "parentWidget rotate_cw_btn = Some transform_group"
| "parentWidget angle_spinbox = Some transform_group"
| "parentWidget angle_45_btn = Some transform_group"
| "parentWidget angle_neg45_btn = Some transform_group"
| "parentWidget flip_h_btn = Some transform_group"
| "parentWidget flip_v_btn = Some transform_group"
| "parentWidget reset_btn = Some transform_group"
| "parentWidget x_spinbox = Some position_group"
| "parentWidget y_spinbox = Some position_group"
| "parentWidget up_btn = Some position_group"
| "parentWidget left_btn = Some position_group"
| "parentWidget center_btn = Some position_group"
| "parentWidget right_btn = Some position_group"
| "parentWidget down_btn = Some position_group"
| "parentWidget visible_checkbox = Some display_group"
| "parentWidget opacity_slider = Some display_group"
| "parentWidget opacity_label = Some display_group"
| "parentWidget _ = None"

datatype signal =
    transform_requested string string pyvalue
  | reset_transform_requested string

text \<open>
  The state of a panel: the three attributes of \<^verbatim>\<open>__init__\<close>, the properties of the
  child widgets, and the log of the signals emitted so far. \<open>enabled\<close> is the flag that
  \<^verbatim>\<open>setEnabled\<close> sets on the widget itself; \<open>text_of\<close> is the text of the four labels
  that the panel rewrites. The list of selected ids is held as a value.
\<close>

record panel =
  current_fragment :: "fragment option"
  selected_fragment_ids :: "string list"
  is_group_selected :: bool
  enabled :: "widget \<Rightarrow> bool"
  signalsBlocked :: "widget \<Rightarrow> bool"
  text_of :: "widget \<Rightarrow> string"
  styleSheet :: "widget \<Rightarrow> string"
  spin_value :: "widget \<Rightarrow> real"
  isChecked :: "widget \<Rightarrow> bool"
  slider_value :: "widget \<Rightarrow> int"
  emitted :: "signal list"

text \<open>
  \<^verbatim>\<open>QWidget.isEnabled\<close>: a widget takes input when it has not been disabled itself and
  its parent widget is enabled; a child of a disabled group box stays disabled whatever
  \<^verbatim>\<open>setEnabled(True)\<close> is called on it.
\<close>

definition isEnabled :: "panel \<Rightarrow> widget \<Rightarrow> bool" where
  "isEnabled self w =
     (enabled self w \<and> (case parentWidget w of None \<Rightarrow> True | Some p \<Rightarrow> enabled self p))"

text \<open>A method body is a sequence of statements, each of which may raise.\<close>

fun run :: "(panel \<Rightarrow> error + panel) list \<Rightarrow> panel \<Rightarrow> error + panel" where
  "run [] self = Inr self"
| "run (stmt # stmts) self = (case stmt self of Inl e \<Rightarrow> Inl e | Inr self' \<Rightarrow> run stmts self')"

definition setEnabled :: "widget \<Rightarrow> bool \<Rightarrow> panel \<Rightarrow> error + panel" where
  "setEnabled w b self = Inr (self\<lparr>enabled := (enabled self)(w := b)\<rparr>)"

definition setText :: "widget \<Rightarrow> string \<Rightarrow> panel \<Rightarrow> error + panel" where
  "setText w t self = Inr (self\<lparr>text_of := (text_of self)(w := t)\<rparr>)"

definition setStyleSheet :: "widget \<Rightarrow> string \<Rightarrow> panel \<Rightarrow> error + panel" where
  "setStyleSheet w t self = Inr (self\<lparr>styleSheet := (styleSheet self)(w := t)\<rparr>)"

definition blockSignals :: "widget \<Rightarrow> bool \<Rightarrow> panel \<Rightarrow> error + panel" where
  "blockSignals w b self = Inr (self\<lparr>signalsBlocked := (signalsBlocked self)(w := b)\<rparr>)"

definition emit :: "signal \<Rightarrow> panel \<Rightarrow> error + panel" where
  "emit sig self = Inr (self\<lparr>emitted := emitted self @ [sig]\<rparr>)"

text \<open>Reading an attribute of \<^verbatim>\<open>self.current_fragment\<close> raises when it is \<^verbatim>\<open>None\<close>.\<close>

definition with_fragment :: "(fragment \<Rightarrow> panel \<Rightarrow> error + panel) \<Rightarrow> panel \<Rightarrow> error + panel" where
  "with_fragment stmt self =
     (case current_fragment self of None \<Rightarrow> Inl AttributeError | Some fragment \<Rightarrow> stmt fragment self)"

subsection \<open>Emitting requests\<close>

definition request_transform :: "string \<Rightarrow> pyvalue \<Rightarrow> panel \<Rightarrow> error + panel" where
  "request_transform transform_type val self =
     (if is_group_selected self then
        (if transform_type \<in> set [''rotate_cw'', ''rotate_ccw''] then
           emit (transform_requested ''group'' transform_type
                   (PyList (map PyStr (selected_fragment_ids self)))) self
         else if transform_type = ''translate'' then
           (case unpack2 val of
              Inl e \<Rightarrow> Inl e
            | Inr (dx, dy) \<Rightarrow>
                run (map (\<lambda>fragment_id. emit (transform_requested fragment_id transform_type val))
                       (selected_fragment_ids self)) self)
         else Inr self)
      else
        (case current_fragment self of
           Some fragment \<Rightarrow> emit (transform_requested (fragment_id fragment) transform_type val) self
         | None \<Rightarrow> Inr self))"

definition request_reset :: "panel \<Rightarrow> error + panel" where
  "request_reset self =
     (if is_group_selected self then
        run (map (\<lambda>fragment_id. emit (reset_transform_requested fragment_id))
               (selected_fragment_ids self)) self
      else
        (case current_fragment self of
           Some fragment \<Rightarrow> emit (reset_transform_requested (fragment_id fragment)) self
         | None \<Rightarrow> Inr self))"

subsection \<open>The slots of the value controls\<close>

definition on_position_changed :: "panel \<Rightarrow> error + panel" where
  "on_position_changed self =
     (case current_fragment self of
        None \<Rightarrow> Inr self
      | Some fragment \<Rightarrow>
          (let new_x = spin_value self x_spinbox;
               new_y = spin_value self y_spinbox
           in request_transform ''translate''
                (PyTuple [PyFloat (new_x - fragment_x fragment),
                          PyFloat (new_y - fragment_y fragment)]) self))"

text \<open>\<^verbatim>\<open>Qt.CheckState.Checked.value\<close> is 2.\<close>

definition on_visibility_changed :: "int \<Rightarrow> panel \<Rightarrow> error + panel" where
  "on_visibility_changed state self =
     (case current_fragment self of
        None \<Rightarrow> Inr self
      | Some fragment \<Rightarrow>
          (let visible = (state = 2)
           in emit (transform_requested (fragment_id fragment) ''set_visibility'' (PyBool visible))
                self))"

text \<open>
  The fragment is an object that the panel shares with its owner: the assignment to its
  \<^verbatim>\<open>opacity\<close> is an update of the fragment that the panel refers to.
\<close>

definition on_opacity_changed :: "int \<Rightarrow> panel \<Rightarrow> error + panel" where
  "on_opacity_changed val self =
     (case current_fragment self of
        None \<Rightarrow> Inr self
      | Some fragment \<Rightarrow>
          (let opacity = real_of_int val / 100
           in run [\<lambda>self. Inr (self\<lparr>current_fragment := Some (fragment\<lparr>opacity := opacity\<rparr>)\<rparr>),
                   setText opacity_label (str_int val @ ''%'')] self))"

definition on_angle_changed :: "panel \<Rightarrow> error + panel" where
  "on_angle_changed self =
     (case current_fragment self of
        None \<Rightarrow> Inr self
      | Some fragment \<Rightarrow>
          (let new_angle = spin_value self angle_spinbox
           in request_transform ''set_rotation'' (PyFloat new_angle) self))"

subsection \<open>The wiring of \<^verbatim>\<open>setup_ui\<close>\<close>

text \<open>
  The slot that each \<^verbatim>\<open>clicked.connect\<close> attaches to a button. The arrow buttons pass
  tuples of integers.
\<close>

fun clicked :: "widget \<Rightarrow> panel \<Rightarrow> error + panel" where
  "clicked rotate_ccw_btn = request_transform ''rotate_ccw'' PyNone"
| "clicked rotate_cw_btn = request_transform ''rotate_cw'' PyNone"
| "clicked angle_45_btn = request_transform ''rotate_angle'' (PyInt 45)"
| "clicked angle_neg45_btn = request_transform ''rotate_angle'' (PyInt (- 45))"
| "clicked flip_h_btn = request_transform ''flip_horizontal'' PyNone"
| "clicked flip_v_btn = request_transform ''flip_vertical'' PyNone"
| "clicked reset_btn = request_reset"
| "clicked up_btn = request_transform ''translate'' (PyTuple [PyInt 0, PyInt (- 10)])"
| "clicked left_btn = request_transform ''translate'' (PyTuple [PyInt (- 10), PyInt 0])"
| "clicked center_btn = request_transform ''translate'' (PyTuple [PyInt 0, PyInt 0])"
| "clicked right_btn = request_transform ''translate'' (PyTuple [PyInt 10, PyInt 0])"
| "clicked down_btn = request_transform ''translate'' (PyTuple [PyInt 0, PyInt 10])"
| "clicked _ = Inr"

text \<open>A click of the user reaches the slot only when the button takes input.\<close>

definition click :: "widget \<Rightarrow> panel \<Rightarrow> error + panel" where
  "click w self = (if isEnabled self w then clicked w self else Inr self)"

text \<open>
  The range and the number of decimals that \<^verbatim>\<open>setRange\<close> and \<^verbatim>\<open>setDecimals\<close> give
  the spin boxes.
\<close>

fun spin_range :: "widget \<Rightarrow> real \<times> real" where
  "spin_range angle_spinbox = (- 360, 360)"
| "spin_range _ = (- 999999, 999999)"

definition spin_decimals :: "widget \<Rightarrow> nat" where
  "spin_decimals w = 1"

text \<open>
  \<^verbatim>\<open>QDoubleSpinBox.setValue\<close> rounds the value to the decimals of the box and bounds it
  to the range, stores it when it differs from the old value, and then delivers
  \<^verbatim>\<open>valueChanged\<close> to the connected slot unless the signals of the box are blocked.
  Halves are rounded away from zero here; no statement below depends on how a tie is
  broken.
\<close>

definition spin_coerce :: "widget \<Rightarrow> real \<Rightarrow> real" where
  "spin_coerce w v =
     (let scale = 10 ^ spin_decimals w;
          rounded = sgn v * real_of_int \<lfloor>\<bar>v\<bar> * scale + 1 / 2\<rfloor> / scale
      in max (fst (spin_range w)) (min (snd (spin_range w)) rounded))"

definition spin_valueChanged :: "widget \<Rightarrow> panel \<Rightarrow> error + panel" where
  "spin_valueChanged w self =
     (if w = x_spinbox \<or> w = y_spinbox then on_position_changed self
      else if w = angle_spinbox then on_angle_changed self
      else Inr self)"

definition QDoubleSpinBox_setValue :: "widget \<Rightarrow> real \<Rightarrow> panel \<Rightarrow> error + panel" where
  "QDoubleSpinBox_setValue w v self =
     (let v' = spin_coerce w v in
      if v' = spin_value self w then Inr self
      else
        (let self' = self\<lparr>spin_value := (spin_value self)(w := v')\<rparr>
         in if signalsBlocked self w then Inr self' else spin_valueChanged w self'))"

text \<open>\<^verbatim>\<open>QCheckBox.setChecked\<close>, with \<^verbatim>\<open>stateChanged\<close> carrying 2 (checked) or 0.\<close>

definition QCheckBox_setChecked :: "widget \<Rightarrow> bool \<Rightarrow> panel \<Rightarrow> error + panel" where
  "QCheckBox_setChecked w b self =
     (if b = isChecked self w then Inr self
      else
        (let self' = self\<lparr>isChecked := (isChecked self)(w := b)\<rparr>
         in if signalsBlocked self w \<or> w \<noteq> visible_checkbox then Inr self'
            else on_visibility_changed (if b then 2 else 0) self'))"

text \<open>\<^verbatim>\<open>QSlider.setValue\<close>, on the range 0 to 100 that \<^verbatim>\<open>setRange\<close> gives the slider.\<close>

definition QSlider_setValue :: "widget \<Rightarrow> int \<Rightarrow> panel \<Rightarrow> error + panel" where
  "QSlider_setValue w v self =
     (let v' = max 0 (min 100 v) in
      if v' = slider_value self w then Inr self
      else
        (let self' = self\<lparr>slider_value := (slider_value self)(w := v')\<rparr>
         in if signalsBlocked self w \<or> w \<noteq> opacity_slider then Inr self'
            else on_opacity_changed v' self'))"

subsection \<open>Pushing the selection into the controls\<close>

definition update_transform_button_states :: "panel \<Rightarrow> error + panel" where
  "update_transform_button_states self =
     (case current_fragment self of
        None \<Rightarrow> Inr self
      | Some fragment \<Rightarrow>
          run [setStyleSheet flip_h_btn
                 (if flip_horizontal fragment
                  then ''QPushButton { background-color: #4a90e2; }'' else []),
               setStyleSheet flip_v_btn
                 (if flip_vertical fragment
                  then ''QPushButton { background-color: #4a90e2; }'' else [])] self)"

text \<open>
  The size label separates the two dimensions by a multiplication sign, which is the two
  bytes C3 97 in UTF-8. An empty name is false in \<^verbatim>\<open>fragment.name or ...\<close>.
\<close>

definition update_controls :: "panel \<Rightarrow> error + panel" where
  "update_controls self =
     (let has_fragment = (current_fragment self \<noteq> None \<or> is_group_selected self) in
      run
        ([setEnabled transform_group has_fragment,
          setEnabled position_group (has_fragment \<and> \<not> is_group_selected self),
          setEnabled display_group has_fragment] @
         (if is_group_selected self then
            [setText name_label
               (''Group Selection ('' @ str_nat (length (selected_fragment_ids self)) @
                '' fragments)''),
             setText size_label ''Size: Multiple'',
             setText file_label ''File: Multiple'',
             setEnabled rotate_cw_btn True,
             setEnabled rotate_ccw_btn True,
             setEnabled angle_spinbox False,
             setEnabled angle_45_btn False,
             setEnabled angle_neg45_btn False,
             setEnabled x_spinbox False,
             setEnabled y_spinbox False,
             setEnabled flip_h_btn False,
             setEnabled flip_v_btn False,
             setEnabled up_btn True,
             setEnabled down_btn True,
             setEnabled left_btn True,
             setEnabled right_btn True,
             setEnabled center_btn True,
             setEnabled visible_checkbox False,
             setEnabled opacity_slider False]
          else if has_fragment \<and> \<not> is_group_selected self then
            [setEnabled angle_spinbox True,
             setEnabled angle_45_btn True,
             setEnabled angle_neg45_btn True,
             setEnabled rotate_cw_btn True,
             setEnabled rotate_ccw_btn True,
             setEnabled flip_h_btn True,
             setEnabled flip_v_btn True,
             setEnabled x_spinbox True,
             setEnabled y_spinbox True,
             with_fragment (\<lambda>fragment. setText name_label
               (if fragment_name fragment \<noteq> [] then fragment_name fragment
                else ''Fragment '' @ take 8 (fragment_id fragment))),
             with_fragment (\<lambda>fragment. setText size_label
               (''Size: '' @ str_int (fst (original_size fragment)) @
                [CHR '' '', CHR 0xC3, CHR 0x97, CHR '' ''] @
                str_int (snd (original_size fragment)))),
             with_fragment (\<lambda>fragment. setText file_label (''File: '' @ file_path fragment)),
             setEnabled visible_checkbox True,
             setEnabled opacity_slider True,
             blockSignals x_spinbox True,
             blockSignals y_spinbox True,
             with_fragment (\<lambda>fragment. QDoubleSpinBox_setValue x_spinbox (fragment_x fragment)),
             with_fragment (\<lambda>fragment. QDoubleSpinBox_setValue y_spinbox (fragment_y fragment)),
             blockSignals x_spinbox False,
             blockSignals y_spinbox False,
             blockSignals angle_spinbox True,
             with_fragment (\<lambda>fragment. QDoubleSpinBox_setValue angle_spinbox (rotation fragment)),
             blockSignals angle_spinbox False,
             blockSignals visible_checkbox True,
             with_fragment (\<lambda>fragment. QCheckBox_setChecked visible_checkbox (visible fragment)),
             blockSignals visible_checkbox False,
             blockSignals opacity_slider True,
             with_fragment (\<lambda>fragment. QSlider_setValue opacity_slider
               (py_int (opacity fragment * 100))),
             with_fragment (\<lambda>fragment. setText opacity_label
               (str_int (py_int (opacity fragment * 100)) @ ''%'')),
             blockSignals opacity_slider False,
             update_transform_button_states]
          else
            [setText name_label ''No selection'',
             setText size_label ''Size: -'',
             setText file_label ''File: -''])) self)"

subsection \<open>The inbound calls\<close>

definition set_selected_fragment :: "fragment option \<Rightarrow> panel \<Rightarrow> error + panel" where
  "set_selected_fragment fragment self =
     update_controls
       (self\<lparr>current_fragment := fragment, selected_fragment_ids := [],
             is_group_selected := False\<rparr>)"

definition set_selected_fragments :: "string list \<Rightarrow> fragment list \<Rightarrow> panel \<Rightarrow> error + panel" where
  "set_selected_fragments fragment_ids fragments self =
     update_controls
       (self\<lparr>selected_fragment_ids := fragment_ids,
             is_group_selected := (length fragment_ids > 1),
             current_fragment := (case fragments of [] \<Rightarrow> None | first # _ \<Rightarrow> Some first)\<rparr>)"

subsection \<open>Construction\<close>

text \<open>
  The panel when \<^verbatim>\<open>setup_ui\<close> returns: every widget is enabled and delivers its signals,
  the labels and the two styled widgets have their initial texts, the spin boxes are at 0,
  the check box is unchecked and the slider is at 100 (set before its signal is connected).
\<close>

definition setup_ui :: panel where
  "setup_ui =
     \<lparr>current_fragment = None,
      selected_fragment_ids = [],
      is_group_selected = False,
      enabled = (\<lambda>w. True),
      signalsBlocked = (\<lambda>w. False),
      text_of = (\<lambda>w. [])
        (name_label := ''No fragment selected'', size_label := ''Size: -'',
         file_label := ''File: -'', opacity_label := ''100%''),
      styleSheet = (\<lambda>w. [])
        (name_label := ''font-weight: bold; color: #4a90e2;'',
         reset_btn := ''QPushButton { background-color: #d32f2f; }''),
      spin_value = (\<lambda>w. 0),
      isChecked = (\<lambda>w. False),
      slider_value = (\<lambda>w. 0)(opacity_slider := 100),
      emitted = []\<rparr>"

definition ControlPanel_init :: "error + panel" where
  "ControlPanel_init = update_controls setup_ui"

subsection \<open>The panel as a state machine\<close>

text \<open>
  Everything that can happen to a panel: a call of one of its methods, a click on one of
  its buttons, or a new value in one of its value controls.
\<close>

datatype call =
    Set_selected_fragment "fragment option"
  | Set_selected_fragments "string list" "fragment list"
  | Update_controls
  | Update_transform_button_states
  | Request_transform string pyvalue
  | Request_reset
  | On_position_changed
  | On_visibility_changed int
  | On_opacity_changed int
  | On_angle_changed
  | Click widget
  | Clicked widget
  | Spin_to widget real
  | Check_to widget bool
  | Slide_to widget int

fun perform :: "call \<Rightarrow> panel \<Rightarrow> error + panel" where
  "perform (Set_selected_fragment fragment) = set_selected_fragment fragment"
| "perform (Set_selected_fragments fragment_ids fragments) =
     set_selected_fragments fragment_ids fragments"
| "perform Update_controls = update_controls"
| "perform Update_transform_button_states = update_transform_button_states"
| "perform (Request_transform transform_type val) = request_transform transform_type val"
| "perform Request_reset = request_reset"
| "perform On_position_changed = on_position_changed"
| "perform (On_visibility_changed state) = on_visibility_changed state"
| "perform (On_opacity_changed val) = on_opacity_changed val"
| "perform On_angle_changed = on_angle_changed"
| "perform (Click w) = click w"
| "perform (Clicked w) = clicked w"
| "perform (Spin_to w v) = QDoubleSpinBox_setValue w v"
| "perform (Check_to w b) = QCheckBox_setChecked w b"
| "perform (Slide_to w v) = QSlider_setValue w v"


subsection \<open>Sample panels\<close>

text \<open>
  A fragment at position (10, 20), the panel as constructed, the panel after that fragment
  has been selected, and the panel after a group of two ids has been selected.
\<close>

definition sample_fragment :: fragment where
  "sample_fragment =
     \<lparr>fragment_id = ''f1'', fragment_name = ''shard'', original_size = (640, 480),
      file_path = ''shard.png'', fragment_x = 10, fragment_y = 20, rotation = 90,
      flip_horizontal = False, flip_vertical = True, visible = True, opacity = 1\<rparr>"

definition new_panel :: panel where
  "new_panel = projr ControlPanel_init"

definition single_panel :: panel where
  "single_panel = projr (set_selected_fragment (Some sample_fragment) new_panel)"

definition group_panel :: panel where
  "group_panel =
     projr (set_selected_fragments [''f1'', ''f2'']
              [sample_fragment, sample_fragment\<lparr>fragment_id := ''f2''\<rparr>] new_panel)"

section \<open>Properties\<close>

subsection \<open>Running statements and setting values\<close>

lemma run_emit_map:
  "run (map (\<lambda>x. emit (g x)) xs) self = Inr (self\<lparr>emitted := emitted self @ map g xs\<rparr>)"
  by (induction xs arbitrary: self) (simp_all add: emit_def)

lemma blocked_spin:
  "signalsBlocked self w \<Longrightarrow>
     QDoubleSpinBox_setValue w v self =
       Inr (self\<lparr>spin_value := (spin_value self)(w := spin_coerce w v)\<rparr>)"
  by (simp add: QDoubleSpinBox_setValue_def Let_def)

lemma blocked_check:
  "signalsBlocked self w \<Longrightarrow>
     QCheckBox_setChecked w b self = Inr (self\<lparr>isChecked := (isChecked self)(w := b)\<rparr>)"
  by (simp add: QCheckBox_setChecked_def Let_def)

lemma blocked_slider:
  "signalsBlocked self w \<Longrightarrow>
     QSlider_setValue w v self =
       Inr (self\<lparr>slider_value := (slider_value self)(w := max 0 (min 100 v))\<rparr>)"
  by (simp add: QSlider_setValue_def Let_def)

lemmas stmt_defs =
  setEnabled_def setText_def blockSignals_def with_fragment_def setStyleSheet_def
  update_transform_button_states_def

lemma update_controls_group:
  "is_group_selected self \<Longrightarrow>
   update_controls self = Inr (self\<lparr>
     enabled := (enabled self)
       (transform_group := True, position_group := False, display_group := True,
        rotate_cw_btn := True, rotate_ccw_btn := True, angle_spinbox := False, angle_45_btn := False,
        angle_neg45_btn := False, x_spinbox := False, y_spinbox := False, flip_h_btn := False,
        flip_v_btn := False, up_btn := True, down_btn := True, left_btn := True, right_btn := True,
        center_btn := True, visible_checkbox := False, opacity_slider := False),
     text_of := (text_of self)
       (name_label := ''Group Selection ('' @ str_nat (length (selected_fragment_ids self)) @
                      '' fragments)'',
        size_label := ''Size: Multiple'', file_label := ''File: Multiple'')\<rparr>)"
  by (simp add: update_controls_def stmt_defs)

lemma update_controls_none:
  "\<not> is_group_selected self \<Longrightarrow> current_fragment self = None \<Longrightarrow>
   update_controls self = Inr (self\<lparr>
     enabled := (enabled self)
       (transform_group := False, position_group := False, display_group := False),
     text_of := (text_of self)(name_label := ''No selection'',
        size_label := ''Size: -'', file_label := ''File: -'')\<rparr>)"
  by (simp add: update_controls_def stmt_defs)

lemma update_controls_single:
  "\<not> is_group_selected self \<Longrightarrow> current_fragment self = Some fragment \<Longrightarrow>
   update_controls self = Inr (self\<lparr>
     enabled := (enabled self)
       (transform_group := True, position_group := True, display_group := True,
        angle_spinbox := True, angle_45_btn := True, angle_neg45_btn := True,
        rotate_cw_btn := True, rotate_ccw_btn := True, flip_h_btn := True, flip_v_btn := True,
        x_spinbox := True, y_spinbox := True, visible_checkbox := True, opacity_slider := True),
     text_of := (text_of self)
       (name_label := (if fragment_name fragment \<noteq> [] then fragment_name fragment
                       else ''Fragment '' @ take 8 (fragment_id fragment)),
        size_label := ''Size: '' @ str_int (fst (original_size fragment)) @
                [CHR '' '', CHR 0xC3, CHR 0x97, CHR '' ''] @ str_int (snd (original_size fragment)),
        file_label := ''File: '' @ file_path fragment,
        opacity_label := str_int (py_int (opacity fragment * 100)) @ ''%''),
     signalsBlocked := (signalsBlocked self)(x_spinbox := False, y_spinbox := False,
        angle_spinbox := False, visible_checkbox := False, opacity_slider := False),
     spin_value := (spin_value self)
       (x_spinbox := spin_coerce x_spinbox (fragment_x fragment),
        y_spinbox := spin_coerce y_spinbox (fragment_y fragment),
        angle_spinbox := spin_coerce angle_spinbox (rotation fragment)),
     isChecked := (isChecked self)(visible_checkbox := visible fragment),
     slider_value := (slider_value self)
       (opacity_slider := max 0 (min 100 (py_int (opacity fragment * 100)))),
     styleSheet := (styleSheet self)
       (flip_h_btn := (if flip_horizontal fragment
                  then ''QPushButton { background-color: #4a90e2; }'' else []),
        flip_v_btn := (if flip_vertical fragment
                  then ''QPushButton { background-color: #4a90e2; }'' else []))\<rparr>)"
  by (simp add: update_controls_def stmt_defs blocked_spin blocked_check blocked_slider)

lemma update_controls_frame:
  "\<exists>self'. update_controls self = Inr self' \<and> emitted self' = emitted self \<and>
     current_fragment self' = current_fragment self \<and>
     selected_fragment_ids self' = selected_fragment_ids self \<and>
     is_group_selected self' = is_group_selected self"
proof (cases "is_group_selected self")
  case True
  then show ?thesis by (simp add: update_controls_group)
next
  case False
  then show ?thesis
    by (cases "current_fragment self") (simp_all add: update_controls_none update_controls_single)
qed



lemma request_transform_none:
  "current_fragment self = None \<Longrightarrow> \<not> is_group_selected self \<Longrightarrow>
     request_transform transform_type val self = Inr self"
  by (simp add: request_transform_def)

lemma request_reset_none:
  "current_fragment self = None \<Longrightarrow> \<not> is_group_selected self \<Longrightarrow> request_reset self = Inr self"
  by (simp add: request_reset_def)

lemma clicked_none:
  "current_fragment self = None \<Longrightarrow> \<not> is_group_selected self \<Longrightarrow> clicked w self = Inr self"
  by (cases w) (simp_all add: request_transform_none request_reset_none)






subsection \<open>The sample panels\<close>


lemma new_panel_fields:
  "current_fragment new_panel = None"
  "selected_fragment_ids new_panel = []"
  "\<not> is_group_selected new_panel"
  "emitted new_panel = []"
  by (simp_all add: new_panel_def ControlPanel_init_def update_controls_none setup_ui_def)


lemma single_panel_fields:
  "current_fragment single_panel = Some sample_fragment"
  "selected_fragment_ids single_panel = []"
  "\<not> is_group_selected single_panel"
  "emitted single_panel = []"
  "spin_value single_panel x_spinbox = 10"
  "spin_value single_panel y_spinbox = 20"
  "\<not> signalsBlocked single_panel x_spinbox"
  "\<not> signalsBlocked single_panel opacity_slider"
  "slider_value single_panel opacity_slider = 100"
  by (simp_all add: single_panel_def set_selected_fragment_def update_controls_single
        new_panel_fields sample_fragment_def spin_coerce_def spin_decimals_def py_int_def)

lemma select_group_panel:
  "set_selected_fragments [''f1'', ''f2'']
     [sample_fragment, sample_fragment\<lparr>fragment_id := ''f2''\<rparr>] new_panel = Inr group_panel"
  by (simp add: group_panel_def set_selected_fragments_def update_controls_group)

lemma group_panel_fields:
  "current_fragment group_panel = Some sample_fragment"
  "selected_fragment_ids group_panel = [''f1'', ''f2'']"
  "is_group_selected group_panel"
  "emitted group_panel = []"
  by (simp_all add: group_panel_def set_selected_fragments_def update_controls_group
        new_panel_fields)

subsection \<open>Which controls take input in group mode\<close>

text \<open>
  C1. After \<^verbatim>\<open>set_selected_fragments\<close> with more than one id the panel is in group mode.
  The method disables the position group box before it calls \<^verbatim>\<open>setEnabled(True)\<close> on
  the five arrow buttons, which are children of that box: the buttons carry their own
  enabled flag, and yet none of them takes input, because \<open>isEnabled\<close> also asks for
  an enabled parent. The two quarter-turn buttons do take input; the angle spin box, the
  two 45-degree buttons, the flip buttons, the position spin boxes, the visibility check box
  and the opacity slider do not.
\<close>

theorem C1_group_disables_arrow_buttons:
  assumes "length fragment_ids > 1"
  shows "\<exists>self'. set_selected_fragments fragment_ids fragments self = Inr self' \<and>
     \<not> isEnabled self' up_btn \<and> \<not> isEnabled self' down_btn \<and> \<not> isEnabled self' left_btn \<and>
     \<not> isEnabled self' right_btn \<and> \<not> isEnabled self' center_btn \<and>
     enabled self' up_btn \<and> enabled self' down_btn \<and> enabled self' left_btn \<and>
     enabled self' right_btn \<and> enabled self' center_btn \<and> \<not> enabled self' position_group \<and>
     isEnabled self' rotate_cw_btn \<and> isEnabled self' rotate_ccw_btn \<and>
     \<not> isEnabled self' angle_spinbox \<and> \<not> isEnabled self' angle_45_btn \<and>
     \<not> isEnabled self' angle_neg45_btn \<and> \<not> isEnabled self' flip_h_btn \<and>
     \<not> isEnabled self' flip_v_btn \<and> \<not> isEnabled self' x_spinbox \<and>
     \<not> isEnabled self' y_spinbox \<and> \<not> isEnabled self' visible_checkbox \<and>
     \<not> isEnabled self' opacity_slider"
  using assms by (simp add: set_selected_fragments_def update_controls_group isEnabled_def)

theorem C1_group_disables_arrow_buttons_witness:
  "length [''f1'', ''f2''] > 1 \<and>
   set_selected_fragments [''f1'', ''f2'']
     [sample_fragment, sample_fragment\<lparr>fragment_id := ''f2''\<rparr>] new_panel = Inr group_panel \<and>
   \<not> isEnabled group_panel up_btn \<and> \<not> isEnabled group_panel down_btn \<and>
   \<not> isEnabled group_panel left_btn \<and> \<not> isEnabled group_panel right_btn \<and>
   \<not> isEnabled group_panel center_btn"
  using C1_group_disables_arrow_buttons [of "[''f1'', ''f2'']"
      "[sample_fragment, sample_fragment\<lparr>fragment_id := ''f2''\<rparr>]" new_panel]
  by (simp add: select_group_panel)

subsection \<open>Requests of a group\<close>

text \<open>
  C2. In group mode a request for \<^verbatim>\<open>rotate_cw\<close> or \<^verbatim>\<open>rotate_ccw\<close> adds exactly one
  signal to the log, addressed to \<^verbatim>\<open>'group'\<close> and carrying the whole list of selected
  ids; a request for \<^verbatim>\<open>translate\<close> with a pair adds one signal for each selected id, in
  the order of the list, each with the pair it was given. Nothing else of the panel changes.
\<close>

theorem C2_group_rotation_and_translation:
  assumes "is_group_selected self"
  shows "request_transform ''rotate_cw'' val self =
       Inr (self\<lparr>emitted := emitted self @
         [transform_requested ''group'' ''rotate_cw''
            (PyList (map PyStr (selected_fragment_ids self)))]\<rparr>) \<and>
     request_transform ''rotate_ccw'' val self =
       Inr (self\<lparr>emitted := emitted self @
         [transform_requested ''group'' ''rotate_ccw''
            (PyList (map PyStr (selected_fragment_ids self)))]\<rparr>) \<and>
     request_transform ''translate'' (PyTuple [dx, dy]) self =
       Inr (self\<lparr>emitted := emitted self @
         map (\<lambda>fragment_id. transform_requested fragment_id ''translate'' (PyTuple [dx, dy]))
           (selected_fragment_ids self)\<rparr>)"
  using assms by (simp add: request_transform_def emit_def run_emit_map)

theorem C2_group_rotation_and_translation_witness:
  "is_group_selected group_panel \<and>
   request_transform ''rotate_cw'' PyNone group_panel =
     Inr (group_panel\<lparr>emitted :=
       [transform_requested ''group'' ''rotate_cw'' (PyList [PyStr ''f1'', PyStr ''f2''])]\<rparr>) \<and>
   request_transform ''translate'' (PyTuple [PyInt 0, PyInt (- 10)]) group_panel =
     Inr (group_panel\<lparr>emitted :=
       [transform_requested ''f1'' ''translate'' (PyTuple [PyInt 0, PyInt (- 10)]),
        transform_requested ''f2'' ''translate'' (PyTuple [PyInt 0, PyInt (- 10)])]\<rparr>)"
  using C2_group_rotation_and_translation [of group_panel PyNone "PyInt 0" "PyInt (- 10)"]
  by (simp add: group_panel_fields)

subsection \<open>Requests of a single fragment\<close>



subsection \<open>Group mode and the list of selected ids\<close>

lemma set_selected_fragment_selection:
  "\<exists>self'. set_selected_fragment fragment self = Inr self' \<and> emitted self' = emitted self \<and>
     current_fragment self' = fragment \<and> selected_fragment_ids self' = [] \<and>
     \<not> is_group_selected self'"
  using update_controls_frame [of "self\<lparr>current_fragment := fragment, selected_fragment_ids := [],
             is_group_selected := False\<rparr>"]
  by (simp add: set_selected_fragment_def)

lemma set_selected_fragments_selection:
  "\<exists>self'. set_selected_fragments fragment_ids fragments self = Inr self' \<and>
     emitted self' = emitted self \<and>
     current_fragment self' = (case fragments of [] \<Rightarrow> None | first # _ \<Rightarrow> Some first) \<and>
     selected_fragment_ids self' = fragment_ids \<and>
     (is_group_selected self' \<longleftrightarrow> length fragment_ids > 1)"
  using update_controls_frame [of "self\<lparr>selected_fragment_ids := fragment_ids,
             is_group_selected := (length fragment_ids > 1),
             current_fragment := (case fragments of [] \<Rightarrow> None | first # _ \<Rightarrow> Some first)\<rparr>"]
  by (simp add: set_selected_fragments_def)





text \<open>
  C5. With a fragment selected, the slot of the opacity slider called with \<open>val\<close> writes
  \<open>val / 100\<close> into the opacity of the fragment the panel refers to and sets the
  percentage label to the decimal digits of \<open>val\<close> followed by a percent sign; the log of
  emitted signals is as before. For 50 the opacity becomes 0.5 and the label reads 50%.
  Moving the slider to a new value between 0 and 100 does the same through the slot.
\<close>

theorem C5_opacity_slider_writes_fragment:
  assumes "current_fragment self = Some fragment"
  shows "on_opacity_changed val self =
       Inr (self\<lparr>current_fragment := Some (fragment\<lparr>opacity := real_of_int val / 100\<rparr>),
                 text_of := (text_of self)(opacity_label := str_int val @ ''%'')\<rparr>) \<and>
     (\<exists>self'. on_opacity_changed 50 self = Inr self' \<and>
        current_fragment self' = Some (fragment\<lparr>opacity := 1 / 2\<rparr>) \<and>
        text_of self' opacity_label = ''50%'' \<and> emitted self' = emitted self) \<and>
     (\<not> signalsBlocked self opacity_slider \<and> 0 \<le> val \<and> val \<le> 100 \<and>
      val \<noteq> slider_value self opacity_slider \<longrightarrow>
      QSlider_setValue opacity_slider val self =
       Inr (self\<lparr>slider_value := (slider_value self)(opacity_slider := val),
                 current_fragment := Some (fragment\<lparr>opacity := real_of_int val / 100\<rparr>),
                 text_of := (text_of self)(opacity_label := str_int val @ ''%'')\<rparr>))"
  using assms
  by (simp add: on_opacity_changed_def QSlider_setValue_def setText_def Let_def
        str_int_def str_nat.simps digit_char_def)

theorem C5_opacity_slider_writes_fragment_witness:
  "current_fragment single_panel = Some sample_fragment \<and>
   \<not> signalsBlocked single_panel opacity_slider \<and> (0::int) \<le> 50 \<and> (50::int) \<le> 100 \<and>
   50 \<noteq> slider_value single_panel opacity_slider \<and>
   QSlider_setValue opacity_slider 50 single_panel =
     Inr (single_panel\<lparr>slider_value := (slider_value single_panel)(opacity_slider := 50),
            current_fragment := Some (sample_fragment\<lparr>opacity := 1 / 2\<rparr>),
            text_of := (text_of single_panel)(opacity_label := ''50%'')\<rparr>)"
  using C5_opacity_slider_writes_fragment [of single_panel sample_fragment 50]
  by (simp add: single_panel_fields str_int_def str_nat.simps digit_char_def)

subsection \<open>Nothing selected\<close>

lemma slots_none:
  assumes "current_fragment self = None"
  shows "on_position_changed self = Inr self" and "on_visibility_changed state self = Inr self"
    and "on_opacity_changed v self = Inr self" and "on_angle_changed self = Inr self"
  using assms
  by (simp_all add: on_position_changed_def on_visibility_changed_def on_opacity_changed_def
        on_angle_changed_def)

lemma perform_none:
  assumes "current_fragment self = None" and "\<not> is_group_selected self"
  shows "\<exists>self'. perform c self = Inr self' \<and> emitted self' = emitted self"
proof (cases c)
  case (Set_selected_fragment fragment)
  then show ?thesis using set_selected_fragment_selection [of fragment self] by auto
next
  case (Set_selected_fragments fragment_ids fragments)
  then show ?thesis using set_selected_fragments_selection [of fragment_ids fragments self] by auto
next
  case Update_controls
  then show ?thesis using update_controls_frame [of self] by auto
next
  case Update_transform_button_states
  then show ?thesis using assms by (simp add: update_transform_button_states_def)
next
  case (Spin_to w v)
  then show ?thesis using assms
    by (simp add: QDoubleSpinBox_setValue_def spin_valueChanged_def Let_def slots_none)
next
  case (Check_to w b)
  then show ?thesis using assms by (simp add: QCheckBox_setChecked_def Let_def slots_none)
next
  case (Slide_to w v)
  then show ?thesis using assms by (simp add: QSlider_setValue_def Let_def slots_none)
qed (use assms in \<open>simp_all add: request_transform_none request_reset_none slots_none
       clicked_none click_def\<close>)

text \<open>
  C6. With no fragment and no group selected, \<^verbatim>\<open>request_transform\<close> (for every
  transform type and every value) and \<^verbatim>\<open>request_reset\<close> return the panel as it was:
  nothing is emitted and nothing is raised. More generally every call, click and value
  change returns and leaves the log of emitted signals as it was.
\<close>

theorem C6_nothing_selected_nothing_emitted:
  assumes "current_fragment self = None" and "\<not> is_group_selected self"
  shows "request_transform transform_type val self = Inr self \<and>
     request_reset self = Inr self \<and>
     (\<exists>self'. perform c self = Inr self' \<and> emitted self' = emitted self)"
  using assms by (simp add: request_transform_none request_reset_none perform_none)

theorem C6_nothing_selected_nothing_emitted_witness:
  "current_fragment new_panel = None \<and> \<not> is_group_selected new_panel \<and>
   request_transform ''translate'' (PyTuple [PyInt 0, PyInt 10]) new_panel = Inr new_panel \<and>
   request_transform ''translate'' PyNone new_panel = Inr new_panel \<and>
   request_reset new_panel = Inr new_panel"
  using C6_nothing_selected_nothing_emitted [of new_panel "''translate''"
      "PyTuple [PyInt 0, PyInt 10]"]
    C6_nothing_selected_nothing_emitted [of new_panel "''translate''" PyNone]
  by (simp add: new_panel_fields)

subsection \<open>Selecting a fragment\<close>



subsection \<open>The arrow buttons\<close>



subsection \<open>Totality of the inbound calls\<close>



text \<open>
  C10. In group mode a request for any transform other than \<^verbatim>\<open>rotate_cw\<close>,
  \<^verbatim>\<open>rotate_ccw\<close> and \<^verbatim>\<open>translate\<close> returns the panel as it was: no signal is
  emitted, nothing is changed and nothing is raised, whatever value comes with it.
\<close>

theorem C10_group_drops_other_transforms:
  assumes "is_group_selected self"
    and "transform_type \<notin> {''rotate_cw'', ''rotate_ccw'', ''translate''}"
  shows "request_transform transform_type val self = Inr self"
  using assms by (simp add: request_transform_def)

theorem C10_group_drops_other_transforms_witness:
  "is_group_selected group_panel \<and>
   ''flip_horizontal'' \<notin> {''rotate_cw'', ''rotate_ccw'', ''translate''} \<and>
   request_transform ''flip_horizontal'' PyNone group_panel = Inr group_panel \<and>
   request_transform ''flip_vertical'' PyNone group_panel = Inr group_panel \<and>
   request_transform ''rotate_angle'' (PyInt 45) group_panel = Inr group_panel \<and>
   request_transform ''set_rotation'' (PyFloat 30) group_panel = Inr group_panel \<and>
   request_transform ''set_visibility'' (PyBool False) group_panel = Inr group_panel"
  using C10_group_drops_other_transforms [of group_panel "''flip_horizontal''" PyNone]
    C10_group_drops_other_transforms [of group_panel "''flip_vertical''" PyNone]
    C10_group_drops_other_transforms [of group_panel "''rotate_angle''" "PyInt 45"]
    C10_group_drops_other_transforms [of group_panel "''set_rotation''" "PyFloat 30"]
    C10_group_drops_other_transforms [of group_panel "''set_visibility''" "PyBool False"]
  by (simp add: group_panel_fields)

end
